theory Spec2Isabelle
  imports Main
begin

section \<open>The CareStack proxy (server.js)\<close>

text \<open>
  The server keeps one token cache for the whole process, fetches a password-grant
  token when the cache cannot be used, and relays \<open>/api/find-slot\<close> to the scheduling
  service. The embedding makes every effect of the JavaScript explicit:
  \<^item> the mutable \<open>tokenCache\<close> is passed in and returned;
  \<^item> a \<open>throw\<close> or a rejected promise is an \<open>error\<close> value (\<open>Inl\<close>);
  \<^item> everything the code reads from outside (the environment variables, the two readings
    of \<open>Date.now()\<close>, what the token endpoint and the scheduling endpoint answer) is a
    field of the \<open>world\<close> the function is applied to;
  \<^item> every \<open>fetchFn\<close> call is recorded, in order, in the list of calls of the outcome.
  A handler is modelled from its first statement to its last without interleaving with
  another request. The \<open>console.log\<close> and \<open>console.error\<close> lines are left out.

  Numbers are integers: epoch milliseconds for the clock, whole seconds for \<open>expires_in\<close>.
  The numbers of the code are IEEE doubles, and the integer arithmetic written here is the
  arithmetic of the code as long as the operands and the result are integers of absolute
  value at most \<open>2^53\<close> (\<open>exact\<close> below); a property that rests on the value of the
  expiry computed at line 73 assumes so. A reading of \<open>Date.now()\<close> is always in that
  range. A string is the sequence of bytes of its UTF-8 encoding.
\<close>

subsection \<open>JavaScript values\<close>

text \<open>
  The values a field of a parsed JSON object can have. \<open>JUndefined\<close> is what reading a
  field that the object lacks gives. Arrays and nested objects are left out.
\<close>

datatype jsval = JUndefined | JNull | JBool bool | JNum int | JStr string

text \<open>What \<open>if (v)\<close>, \<open>v && ...\<close> and \<open>!v\<close> test.\<close>

fun truthy :: "jsval \<Rightarrow> bool" where
  "truthy JUndefined = False"
| "truthy JNull = False"
| "truthy (JBool b) = b"
| "truthy (JNum n) = (n \<noteq> 0)"
| "truthy (JStr s) = (s \<noteq> [])"

text \<open>What an \<open>await\<close> gives: the promise rejects (the \<open>await\<close> throws) or resolves.\<close>

datatype 'a settled = Rejects | Resolves 'a

subsection \<open>Configuration\<close>

text \<open>An entry of \<open>process.env\<close> is a string, or undefined (\<open>None\<close>) when the variable is unset.\<close>

record environment =
  CS_TOKEN_URL :: "string option"
  CS_CLIENT_ID :: "string option"
  CS_CLIENT_SECRET :: "string option"
  CS_USERNAME :: "string option"
  CS_PASSWORD :: "string option"

text \<open>\<open>process.env.X || d\<close>: the default replaces an unset and an empty variable.\<close>

definition or_default :: "string option \<Rightarrow> string \<Rightarrow> string" where
  "or_default v d = (case v of None \<Rightarrow> d | Some s \<Rightarrow> if s = [] then d else s)"

subsection \<open>The token endpoint\<close>

text \<open>
  The form the code posts (lines 40 to 63): the URL and the four credentials; the grant
  type, the method and the content type are constants of the code.
\<close>

record token_request =
  tokenUrl :: string
  client_id :: string
  client_secret :: string
  username :: string
  password :: string

definition token_request_of :: "environment \<Rightarrow> token_request" where
  "token_request_of e =
     \<lparr> tokenUrl = or_default (CS_TOKEN_URL e) ''https://id.carestack.ie/connect/token'',
       client_id = or_default (CS_CLIENT_ID e) ''dentaltech_api_client'',
       client_secret = or_default (CS_CLIENT_SECRET e) '''',
       username = or_default (CS_USERNAME e) '''',
       password = or_default (CS_PASSWORD e) '''' \<rparr>"

text \<open>Line 46: \<open>!client_id || !client_secret || !username || !password\<close>.\<close>

definition missing_credentials :: "token_request \<Rightarrow> bool" where
  "missing_credentials r \<longleftrightarrow>
     client_id r = [] \<or> client_secret r = [] \<or> username r = [] \<or> password r = []"

text \<open>
  The object \<open>resp.json()\<close> resolves to, read at the two fields the code uses.
  \<open>json_access_token\<close> is \<open>JUndefined\<close> and \<open>json_expires_in\<close> is \<open>None\<close> when the body has
  no such field; an \<open>expires_in\<close> that is present is a whole number of seconds.
\<close>

record token_json =
  json_access_token :: jsval
  json_expires_in :: "int option"

text \<open>
  The answer of the token endpoint. \<open>resp_body\<close> is what \<open>resp.text()\<close> settles to and
  \<open>resp_json\<close> what \<open>resp.json()\<close> followed by the field reads of lines 71 and 72 settles
  to: \<open>Rejects\<close> for a body that is not JSON, and for the JSON \<open>null\<close>, whose fields cannot
  be read.
\<close>

record token_response =
  resp_status :: int
  resp_statusText :: string
  resp_body :: "string settled"
  resp_json :: "token_json settled"

text \<open>\<open>resp.ok\<close> of the Fetch API: the status is in the range 200 to 299.\<close>

definition resp_ok :: "token_response \<Rightarrow> bool" where
  "resp_ok r \<longleftrightarrow> 200 \<le> resp_status r \<and> resp_status r \<le> 299"

text \<open>
  Line 71: \<open>Number(json.expires_in || 300)\<close>, in seconds, for an \<open>expires_in\<close> that is absent
  or a whole number. A fractional number or a string in that field has no counterpart here.
\<close>

definition expires_in_of :: "token_json \<Rightarrow> int" where
  "expires_in_of j =
     (case json_expires_in j of None \<Rightarrow> 300 | Some n \<Rightarrow> if n = 0 then 300 else n)"

subsection \<open>The scheduling endpoint\<close>

text \<open>
  A value of \<open>req.query\<close>: undefined when the parameter is missing, a string (empty for
  \<open>fromDate=\<close>), or an array or object for a repeated or bracketed parameter. An array or
  object carries what converting it to a string settles to: \<open>Rejects\<close> when the conversion
  throws, as it does for an object whose \<open>toString\<close> is not a function
  (\<open>fromDate[toString]=1\<close>).
\<close>

datatype qparam = QMissing | QString string | QNested "string settled"

text \<open>Line 95: \<open>!fromDate\<close> is false for a non-empty string and for every array or object.\<close>

fun given :: "qparam \<Rightarrow> bool" where
  "given QMissing = False"
| "given (QString s) = (s \<noteq> [])"
| "given (QNested r) = True"

text \<open>
  What \<open>encodeURIComponent\<close> first makes of its argument: the argument as a string. A
  string of \<open>req.query\<close> was decoded from the URL and has no lone surrogate, so the
  percent-encoding that follows does not throw.
\<close>

fun as_string :: "qparam \<Rightarrow> string settled" where
  "as_string QMissing = Resolves ''undefined''"
| "as_string (QString s) = Resolves s"
| "as_string (QNested r) = r"

record query =
  fromDate :: qparam
  locationId :: qparam
  providerId :: qparam
  productionTypeId :: qparam

text \<open>
  Line 100: the URL is the fixed base and path with the four values, each converted to a
  string and percent-encoded. The encoding is one to one, so the URL is kept as the four
  strings before encoding. The template is evaluated from left to right and the first
  conversion that throws ends it.
\<close>

record slot_url =
  url_fromDate :: string
  url_locationId :: string
  url_providerId :: string
  url_productionTypeId :: string

definition slot_url_of :: "query \<Rightarrow> slot_url settled" where
  "slot_url_of q =
     (case as_string (fromDate q) of Rejects \<Rightarrow> Rejects | Resolves a \<Rightarrow>
      case as_string (locationId q) of Rejects \<Rightarrow> Rejects | Resolves b \<Rightarrow>
      case as_string (providerId q) of Rejects \<Rightarrow> Rejects | Resolves c \<Rightarrow>
      case as_string (productionTypeId q) of Rejects \<Rightarrow> Rejects | Resolves d \<Rightarrow>
        Resolves \<lparr> url_fromDate = a, url_locationId = b, url_providerId = c,
                   url_productionTypeId = d \<rparr>)"

text \<open>
  The GET of lines 102 to 108: the URL, and the Authorization header, which is \<open>Bearer\<close>
  followed by the token; the Accept header is a constant of the code.
\<close>

record scheduler_request =
  target :: slot_url
  bearer :: jsval

text \<open>
  The answer of the scheduling endpoint: its status, what \<open>headers.get('content-type')\<close>
  gives (\<open>None\<close> for null), the bytes of the body as the endpoint sent them, and what
  \<open>upstream.text()\<close> settles to. The code reads the body through \<open>text()\<close> only, which
  decodes the bytes as UTF-8; \<open>up_raw\<close> is there for the properties that speak of the bytes.
\<close>

record upstream_response =
  up_status :: int
  up_content_type :: "string option"
  up_raw :: string
  up_body :: "string settled"

subsection \<open>State, world, outcome\<close>

datatype error =
    MissingCredentials
  | TokenRequestFailed int string string
  | FetchRejected
  | BodyRejected
  | EncodeFailed

record token_cache =
  access_token :: jsval
  expires_at :: int

text \<open>Lines 29 to 32: the cache at process start.\<close>

definition tokenCache :: token_cache where
  "tokenCache = \<lparr> access_token = JNull, expires_at = 0 \<rparr>"

datatype net_call = TokenPost token_request | SchedulerGet scheduler_request

record world =
  env :: environment
  now_entry :: int
  now_store :: int
  token_endpoint :: "token_request \<Rightarrow> token_response settled"
  scheduler :: "scheduler_request \<Rightarrow> upstream_response settled"

record 'a outcome =
  result :: 'a
  cache :: token_cache
  calls :: "net_call list"

subsection \<open>getAccessToken\<close>

text \<open>Line 36: the test of the cache-hit path.\<close>

definition cache_hit :: "int \<Rightarrow> token_cache \<Rightarrow> bool" where
  "cache_hit now c \<longleftrightarrow> truthy (access_token c) \<and> now < expires_at c - 60000"

definition getAccessToken :: "world \<Rightarrow> token_cache \<Rightarrow> (error + jsval) outcome" where
  "getAccessToken w c =
     (let now = now_entry w in
      if cache_hit now c then \<lparr> result = Inr (access_token c), cache = c, calls = [] \<rparr>
      else
        let req = token_request_of (env w) in
        if missing_credentials req
        then \<lparr> result = Inl MissingCredentials, cache = c, calls = [] \<rparr>
        else
          (case token_endpoint w req of
             Rejects \<Rightarrow> \<lparr> result = Inl FetchRejected, cache = c, calls = [TokenPost req] \<rparr>
           | Resolves resp \<Rightarrow>
               if \<not> resp_ok resp
               then
                 let body = (case resp_body resp of Rejects \<Rightarrow> [] | Resolves t \<Rightarrow> t) in
                 \<lparr> result = Inl (TokenRequestFailed (resp_status resp) (resp_statusText resp) body),
                   cache = c, calls = [TokenPost req] \<rparr>
               else
                 (case resp_json resp of
                    Rejects \<Rightarrow> \<lparr> result = Inl BodyRejected, cache = c, calls = [TokenPost req] \<rparr>
                  | Resolves j \<Rightarrow>
                      let expires_in = expires_in_of j;
                          c1 = c\<lparr> access_token := json_access_token j \<rparr>;
                          c2 = c1\<lparr> expires_at := now_store w + expires_in * 1000 \<rparr>
                      in \<lparr> result = Inr (access_token c2), cache = c2, calls = [TokenPost req] \<rparr>)))"

subsection \<open>The handlers\<close>

text \<open>
  What a handler hands to \<open>res\<close>: either \<open>res.status(s).json(p)\<close> (status 200 when the
  handler sets none), or the relay of lines 111 to 115: a status, a content-type header
  and the body given to \<open>res.send\<close>. An error inside a payload stands for \<open>String(e)\<close>.
\<close>

datatype payload =
    HealthInfo int
  | TokenInfo jsval int
  | ErrorText error
  | MissingParams
  | ProxyFailure error

datatype http_response = Json int payload | Relay int string string

fun status_of :: "http_response \<Rightarrow> int" where
  "status_of (Json s p) = s"
| "status_of (Relay s ct b) = s"

text \<open>The payloads that are an object with an \<open>error\<close> field.\<close>

fun error_payload :: "http_response \<Rightarrow> bool" where
  "error_payload (Json s (ErrorText e)) = True"
| "error_payload (Json s MissingParams) = True"
| "error_payload (Json s (ProxyFailure e)) = True"
| "error_payload (Json s (HealthInfo t)) = False"
| "error_payload (Json s (TokenInfo t e)) = False"
| "error_payload (Relay s ct b) = False"

text \<open>Lines 24 to 26.\<close>

definition health :: "world \<Rightarrow> token_cache \<Rightarrow> http_response outcome" where
  "health w c = \<lparr> result = Json 200 (HealthInfo (now_entry w)), cache = c, calls = [] \<rparr>"

text \<open>Lines 78 to 85.\<close>

definition api_token :: "world \<Rightarrow> token_cache \<Rightarrow> http_response outcome" where
  "api_token w c =
     (let t = getAccessToken w c in
      case result t of
        Inr token \<Rightarrow>
          \<lparr> result = Json 200 (TokenInfo token (expires_at (cache t))),
            cache = cache t, calls = calls t \<rparr>
      | Inl e \<Rightarrow> \<lparr> result = Json 500 (ErrorText e), cache = cache t, calls = calls t \<rparr>)"

text \<open>Lines 88 to 120. The token is fetched first (line 90), the query is tested after.\<close>

definition api_find_slot :: "world \<Rightarrow> query \<Rightarrow> token_cache \<Rightarrow> http_response outcome" where
  "api_find_slot w q c =
     (let t = getAccessToken w c in
      case result t of
        Inl err \<Rightarrow> \<lparr> result = Json 500 (ProxyFailure err), cache = cache t, calls = calls t \<rparr>
      | Inr token \<Rightarrow>
          if \<not> given (fromDate q) \<or> \<not> given (locationId q) \<or> \<not> given (providerId q)
             \<or> \<not> given (productionTypeId q)
          then \<lparr> result = Json 400 MissingParams, cache = cache t, calls = calls t \<rparr>
          else
            (case slot_url_of q of
               Rejects \<Rightarrow>
                 \<lparr> result = Json 500 (ProxyFailure EncodeFailed), cache = cache t,
                   calls = calls t \<rparr>
             | Resolves url \<Rightarrow>
                 let req = \<lparr> target = url, bearer = token \<rparr> in
                 (case scheduler w req of
                    Rejects \<Rightarrow>
                      \<lparr> result = Json 500 (ProxyFailure FetchRejected), cache = cache t,
                        calls = calls t @ [SchedulerGet req] \<rparr>
                  | Resolves upstream \<Rightarrow>
                      (case up_body upstream of
                         Rejects \<Rightarrow>
                           \<lparr> result = Json 500 (ProxyFailure BodyRejected), cache = cache t,
                             calls = calls t @ [SchedulerGet req] \<rparr>
                       | Resolves body \<Rightarrow>
                           let ct = or_default (up_content_type upstream)
                                      ''application/json; charset=utf-8''
                           in \<lparr> result = Relay (up_status upstream) ct body, cache = cache t,
                                calls = calls t @ [SchedulerGet req] \<rparr>))))"



text \<open>The routes of the application.\<close>

datatype request = GetHealth | GetToken | GetFindSlot query

fun handle :: "world \<Rightarrow> request \<Rightarrow> token_cache \<Rightarrow> http_response outcome" where
  "handle w GetHealth c = health w c"
| "handle w GetToken c = api_token w c"
| "handle w (GetFindSlot q) c = api_find_slot w q c"

subsection \<open>Vocabulary of the properties\<close>

text \<open>An environment variable that is unset or set to the empty string.\<close>

definition unset :: "string option \<Rightarrow> bool" where
  "unset v \<longleftrightarrow> v = None \<or> v = Some []"

text \<open>
  An integer on which the double arithmetic of the code is the integer arithmetic: every
  integer of absolute value at most \<open>2^53\<close> is a double, and a sum or a product of two of
  them that is again in the range is computed without rounding.
\<close>

definition exact :: "int \<Rightarrow> bool" where
  "exact x \<longleftrightarrow> - 9007199254740992 \<le> x \<and> x \<le> 9007199254740992"

text \<open>A call to the scheduling endpoint, as opposed to one to the token endpoint.\<close>

fun scheduler_call :: "net_call \<Rightarrow> bool" where
  "scheduler_call (SchedulerGet r) = True"
| "scheduler_call (TokenPost r) = False"

subsection \<open>Scenarios\<close>

text \<open>Concrete environments, answers and worlds on which the properties are run.\<close>

definition env_set :: environment where
  "env_set = \<lparr> CS_TOKEN_URL = None, CS_CLIENT_ID = None, CS_CLIENT_SECRET = Some ''secret'',
     CS_USERNAME = Some ''user'', CS_PASSWORD = Some ''pass'' \<rparr>"

definition env_unset :: environment where
  "env_unset = \<lparr> CS_TOKEN_URL = None, CS_CLIENT_ID = None, CS_CLIENT_SECRET = None,
     CS_USERNAME = None, CS_PASSWORD = None \<rparr>"

definition answer_ok :: "token_json \<Rightarrow> token_response settled" where
  "answer_ok j = Resolves \<lparr> resp_status = 200, resp_statusText = ''OK'',
     resp_body = Resolves [], resp_json = Resolves j \<rparr>"

definition answer_401 :: "token_response settled" where
  "answer_401 = Resolves \<lparr> resp_status = 401, resp_statusText = ''Unauthorized'',
     resp_body = Resolves ''denied'', resp_json = Rejects \<rparr>"

definition slots_200 :: "string option \<Rightarrow> upstream_response settled" where
  "slots_200 ct = Resolves \<lparr> up_status = 200, up_content_type = ct, up_raw = ''[]'',
     up_body = Resolves ''[]'' \<rparr>"



definition full_url :: slot_url where
  "full_url = \<lparr> url_fromDate = ''2024-01-01'', url_locationId = ''1'',
     url_providerId = ''2'', url_productionTypeId = ''3'' \<rparr>"

definition scenario ::
  "environment \<Rightarrow> int \<Rightarrow> int \<Rightarrow> token_response settled \<Rightarrow> upstream_response settled \<Rightarrow> world" where
  "scenario e t1 t2 a u =
     \<lparr> env = e, now_entry = t1, now_store = t2, token_endpoint = (\<lambda>r. a), scheduler = (\<lambda>r. u) \<rparr>"

definition full_query :: query where
  "full_query = \<lparr> fromDate = QString ''2024-01-01'', locationId = QString ''1'',
     providerId = QString ''2'', productionTypeId = QString ''3'' \<rparr>"

section \<open>Properties\<close>

subsection \<open>How getAccessToken runs\<close>

lemma getAccessToken_hit:
  "cache_hit (now_entry w) c \<Longrightarrow>
   getAccessToken w c = \<lparr> result = Inr (access_token c), cache = c, calls = [] \<rparr>"
  by (simp add: getAccessToken_def)

lemma getAccessToken_unconfigured:
  "\<not> cache_hit (now_entry w) c \<Longrightarrow> missing_credentials (token_request_of (env w)) \<Longrightarrow>
   getAccessToken w c = \<lparr> result = Inl MissingCredentials, cache = c, calls = [] \<rparr>"
  by (simp add: getAccessToken_def)

lemma getAccessToken_rejected:
  "\<not> cache_hit (now_entry w) c \<Longrightarrow> \<not> missing_credentials (token_request_of (env w)) \<Longrightarrow>
   token_endpoint w (token_request_of (env w)) = Rejects \<Longrightarrow>
   getAccessToken w c =
     \<lparr> result = Inl FetchRejected, cache = c, calls = [TokenPost (token_request_of (env w))] \<rparr>"
  by (simp add: getAccessToken_def)

lemma getAccessToken_not_ok:
  "\<not> cache_hit (now_entry w) c \<Longrightarrow> \<not> missing_credentials (token_request_of (env w)) \<Longrightarrow>
   token_endpoint w (token_request_of (env w)) = Resolves resp \<Longrightarrow> \<not> resp_ok resp \<Longrightarrow>
   getAccessToken w c =
     \<lparr> result = Inl (TokenRequestFailed (resp_status resp) (resp_statusText resp)
                       (case resp_body resp of Rejects \<Rightarrow> [] | Resolves t \<Rightarrow> t)),
       cache = c, calls = [TokenPost (token_request_of (env w))] \<rparr>"
  by (simp add: getAccessToken_def)

lemma getAccessToken_unparsed:
  "\<not> cache_hit (now_entry w) c \<Longrightarrow> \<not> missing_credentials (token_request_of (env w)) \<Longrightarrow>
   token_endpoint w (token_request_of (env w)) = Resolves resp \<Longrightarrow> resp_ok resp \<Longrightarrow>
   resp_json resp = Rejects \<Longrightarrow>
   getAccessToken w c =
     \<lparr> result = Inl BodyRejected, cache = c, calls = [TokenPost (token_request_of (env w))] \<rparr>"
  by (simp add: getAccessToken_def)

lemma getAccessToken_stored:
  "\<not> cache_hit (now_entry w) c \<Longrightarrow> \<not> missing_credentials (token_request_of (env w)) \<Longrightarrow>
   token_endpoint w (token_request_of (env w)) = Resolves resp \<Longrightarrow> resp_ok resp \<Longrightarrow>
   resp_json resp = Resolves j \<Longrightarrow>
   getAccessToken w c =
     \<lparr> result = Inr (json_access_token j),
       cache = \<lparr> access_token = json_access_token j,
                 expires_at = now_store w + expires_in_of j * 1000 \<rparr>,
       calls = [TokenPost (token_request_of (env w))] \<rparr>"
  by (simp add: getAccessToken_def Let_def)

text \<open>getAccessToken never calls the scheduling endpoint.\<close>

lemma getAccessToken_no_scheduler_call:
  "filter scheduler_call (calls (getAccessToken w c)) = []"
  by (simp add: getAccessToken_def Let_def split: settled.split)

text \<open>What the scenarios evaluate to.\<close>

lemma request_env_set:
  "token_request_of env_set =
     \<lparr> tokenUrl = ''https://id.carestack.ie/connect/token'', client_id = ''dentaltech_api_client'',
       client_secret = ''secret'', username = ''user'', password = ''pass'' \<rparr>"
  by (simp add: token_request_of_def env_set_def or_default_def)

lemma env_set_configured: "\<not> missing_credentials (token_request_of env_set)"
  by (simp add: request_env_set missing_credentials_def)

lemma scenario_simps:
  "env (scenario e t1 t2 a u) = e"
  "now_entry (scenario e t1 t2 a u) = t1"
  "now_store (scenario e t1 t2 a u) = t2"
  "token_endpoint (scenario e t1 t2 a u) r = a"
  "scheduler (scenario e t1 t2 a u) r' = u"
  by (simp_all add: scenario_def)

lemma start_is_miss: "\<not> cache_hit t tokenCache"
  by (simp add: cache_hit_def tokenCache_def)

lemma token_401:
  "getAccessToken (scenario env_set t1 t2 answer_401 u) tokenCache
     = \<lparr> result = Inl (TokenRequestFailed 401 ''Unauthorized'' ''denied''), cache = tokenCache,
         calls = [TokenPost (token_request_of env_set)] \<rparr>"
  by (simp add: getAccessToken_def start_is_miss scenario_simps env_set_configured
      answer_401_def resp_ok_def)

lemma token_200:
  "getAccessToken (scenario env_set t1 t2 (answer_ok j) u) tokenCache
     = \<lparr> result = Inr (json_access_token j),
         cache = \<lparr> access_token = json_access_token j,
                   expires_at = t2 + expires_in_of j * 1000 \<rparr>,
         calls = [TokenPost (token_request_of env_set)] \<rparr>"
  by (simp add: getAccessToken_def cache_hit_def scenario_simps env_set_configured
      answer_ok_def resp_ok_def tokenCache_def)

subsection \<open>The cache-hit path\<close>

text \<open>
  C1, as stated, fails: the test of line 36 is on the truth value of the cached token, and
  the empty string is a token that is not null and yet not used. Here the cache holds the
  empty string with an expiry far ahead, and the call posts to the token endpoint and
  overwrites the cache.
\<close>

theorem cache_hit_nonnull_counterexample:
  "access_token \<lparr> access_token = JStr [], expires_at = 4000000 \<rparr> \<noteq> JNull
   \<and> (1000000 :: int) < expires_at \<lparr> access_token = JStr [], expires_at = 4000000 \<rparr> - 60000
   \<and> getAccessToken
        (scenario env_set 1000000 1000500
           (answer_ok \<lparr> json_access_token = JStr ''fresh'', json_expires_in = Some 3600 \<rparr>) Rejects)
        \<lparr> access_token = JStr [], expires_at = 4000000 \<rparr>
      = \<lparr> result = Inr (JStr ''fresh''),
          cache = \<lparr> access_token = JStr ''fresh'', expires_at = 4600500 \<rparr>,
          calls = [TokenPost (token_request_of env_set)] \<rparr>"
  by (simp add: getAccessToken_def cache_hit_def scenario_def answer_ok_def env_set_def
      token_request_of_def or_default_def missing_credentials_def resp_ok_def expires_in_of_def)

text \<open>
  C1, amended: when the cached token is truthy (not null, undefined, false, 0 or the
  empty string) and the time read at entry is strictly less than \<open>expires_at\<close> minus 60000 ms,
  the call returns the cached token, makes no network call and leaves the cache as it was.
\<close>

theorem cache_hit_returns_cached:
  assumes "truthy (access_token c)"
    and "now_entry w < expires_at c - 60000"
  shows "getAccessToken w c = \<lparr> result = Inr (access_token c), cache = c, calls = [] \<rparr>"
  using assms by (simp add: getAccessToken_def cache_hit_def)

theorem cache_hit_returns_cached_witness:
  "truthy (JStr ''tok'') \<and> (1000000 :: int) < 4000000 - 60000
   \<and> getAccessToken (scenario env_set 1000000 1000500 answer_401 Rejects)
        \<lparr> access_token = JStr ''tok'', expires_at = 4000000 \<rparr>
      = \<lparr> result = Inr (JStr ''tok''),
          cache = \<lparr> access_token = JStr ''tok'', expires_at = 4000000 \<rparr>, calls = [] \<rparr>"
  using cache_hit_returns_cached
    [of "\<lparr> access_token = JStr ''tok'', expires_at = 4000000 \<rparr>"
        "scenario env_set 1000000 1000500 answer_401 Rejects"]
  by (simp add: scenario_def)

subsection \<open>The refresh path: failure\<close>

text \<open>
  C3: when the call takes the refresh path and the post to the token endpoint fails,
  because \<open>fetchFn\<close> throws or because the endpoint answers with a status outside 200 to
  299, the call ends in an error and the cache is exactly what it was before the call. One
  post was made, none is repeated.
\<close>

theorem refresh_failure_keeps_cache:
  assumes "\<not> cache_hit (now_entry w) c"
    and "\<not> missing_credentials (token_request_of (env w))"
    and "token_endpoint w (token_request_of (env w)) = Rejects
         \<or> (\<exists>resp. token_endpoint w (token_request_of (env w)) = Resolves resp
                    \<and> \<not> (200 \<le> resp_status resp \<and> resp_status resp \<le> 299))"
  shows "(\<exists>e. result (getAccessToken w c) = Inl e)
         \<and> cache (getAccessToken w c) = c
         \<and> calls (getAccessToken w c) = [TokenPost (token_request_of (env w))]"
proof -
  from assms(3) show ?thesis
  proof (elim disjE exE conjE)
    assume "token_endpoint w (token_request_of (env w)) = Rejects"
    from getAccessToken_rejected [OF assms(1) assms(2) this] show ?thesis by simp
  next
    fix resp
    assume r: "token_endpoint w (token_request_of (env w)) = Resolves resp"
      and "\<not> (200 \<le> resp_status resp \<and> resp_status resp \<le> 299)"
    then have "\<not> resp_ok resp" by (simp add: resp_ok_def)
    from getAccessToken_not_ok [OF assms(1) assms(2) r this] show ?thesis by simp
  qed
qed

theorem refresh_failure_keeps_cache_witness:
  "getAccessToken (scenario env_set 1000000 1000500 answer_401 Rejects)
       \<lparr> access_token = JStr ''old'', expires_at = 1000100 \<rparr>
     = \<lparr> result = Inl (TokenRequestFailed 401 ''Unauthorized'' ''denied''),
         cache = \<lparr> access_token = JStr ''old'', expires_at = 1000100 \<rparr>,
         calls = [TokenPost (token_request_of env_set)] \<rparr>
   \<and> cache (getAccessToken (scenario env_set 1000000 1000500 Rejects Rejects) tokenCache)
     = tokenCache"
proof -
  let ?c = "\<lparr> access_token = JStr ''old'', expires_at = 1000100 \<rparr>"
  let ?w = "scenario env_set 1000000 1000500 answer_401 Rejects"
  let ?v = "scenario env_set 1000000 1000500 Rejects Rejects"
  have miss: "\<not> cache_hit (now_entry ?w) ?c"
    by (simp add: cache_hit_def scenario_simps)
  have conf: "\<not> missing_credentials (token_request_of (env ?w))"
    by (simp add: scenario_simps env_set_configured)
  have fails: "token_endpoint ?w (token_request_of (env ?w)) = Rejects
     \<or> (\<exists>resp. token_endpoint ?w (token_request_of (env ?w)) = Resolves resp
                \<and> \<not> (200 \<le> resp_status resp \<and> resp_status resp \<le> 299))"
    by (simp add: scenario_simps answer_401_def)
  have miss': "\<not> cache_hit (now_entry ?v) tokenCache"
    by (rule start_is_miss)
  have conf': "\<not> missing_credentials (token_request_of (env ?v))"
    by (simp add: scenario_simps env_set_configured)
  have fails': "token_endpoint ?v (token_request_of (env ?v)) = Rejects
     \<or> (\<exists>resp. token_endpoint ?v (token_request_of (env ?v)) = Resolves resp
                \<and> \<not> (200 \<le> resp_status resp \<and> resp_status resp \<le> 299))"
    by (simp add: scenario_simps)
  have first: "getAccessToken ?w ?c
     = \<lparr> result = Inl (TokenRequestFailed 401 ''Unauthorized'' ''denied''), cache = ?c,
         calls = [TokenPost (token_request_of env_set)] \<rparr>"
    by (simp add: getAccessToken_def cache_hit_def scenario_simps env_set_configured
        answer_401_def resp_ok_def)
  from refresh_failure_keeps_cache [OF miss conf fails]
       refresh_failure_keeps_cache [OF miss' conf' fails'] first
  show ?thesis by simp
qed

subsection \<open>The refresh path: success\<close>

text \<open>
  C4, as stated, fails: line 71 reads \<open>json.expires_in || 300\<close>, so a body that contains
  \<open>expires_in\<close> with the value 0 is stored with an expiry 300 seconds ahead, not 0 seconds.
\<close>

theorem refresh_expiry_zero_counterexample:
  "json_expires_in \<lparr> json_access_token = JStr ''fresh'', json_expires_in = Some 0 \<rparr> = Some 0
   \<and> cache (getAccessToken
        (scenario env_set 1000000 1000500
           (answer_ok \<lparr> json_access_token = JStr ''fresh'', json_expires_in = Some 0 \<rparr>) Rejects)
        tokenCache)
     = \<lparr> access_token = JStr ''fresh'', expires_at = 1000500 + 300 * 1000 \<rparr>
   \<and> expires_at (cache (getAccessToken
        (scenario env_set 1000000 1000500
           (answer_ok \<lparr> json_access_token = JStr ''fresh'', json_expires_in = Some 0 \<rparr>) Rejects)
        tokenCache))
     \<noteq> 1000500 + 0 * 1000"
  by (simp add: getAccessToken_def start_is_miss scenario_simps env_set_configured
      answer_ok_def resp_ok_def expires_in_of_def)

text \<open>
  C4, amended: when the call takes the refresh path and the token endpoint answers with a
  status in 200 to 299 and a JSON body whose \<open>expires_in\<close> is a whole number other than 0,
  with the time of the store, \<open>expires_in\<close> times 1000 and their sum in the range where the
  arithmetic of the code is exact, both fields of the cache are overwritten: \<open>access_token\<close>
  with the body's \<open>access_token\<close>, \<open>expires_at\<close> with the time read at the store plus
  \<open>expires_in\<close> seconds, and the new token is returned.
\<close>

theorem refresh_success_overwrites:
  assumes "\<not> cache_hit (now_entry w) c"
    and "\<not> missing_credentials (token_request_of (env w))"
    and "token_endpoint w (token_request_of (env w)) = Resolves resp"
    and "200 \<le> resp_status resp \<and> resp_status resp \<le> 299"
    and "resp_json resp = Resolves j"
    and "json_expires_in j = Some n"
    and "n \<noteq> 0"
    and "exact (now_store w)"
    and "exact (n * 1000)"
    and "exact (now_store w + n * 1000)"
  shows "getAccessToken w c =
     \<lparr> result = Inr (json_access_token j),
       cache = \<lparr> access_token = json_access_token j, expires_at = now_store w + n * 1000 \<rparr>,
       calls = [TokenPost (token_request_of (env w))] \<rparr>"
proof -
  have ok: "resp_ok resp" using assms(4) by (simp add: resp_ok_def)
  have "expires_in_of j = n" using assms(6) assms(7) by (simp add: expires_in_of_def)
  with getAccessToken_stored [OF assms(1) assms(2) assms(3) ok assms(5)]
  show ?thesis by simp
qed

theorem refresh_success_overwrites_witness:
  "exact 1000500 \<and> exact (3600 * 1000) \<and> exact (1000500 + 3600 * 1000)
   \<and> getAccessToken
     (scenario env_set 1000000 1000500
        (answer_ok \<lparr> json_access_token = JStr ''fresh'', json_expires_in = Some 3600 \<rparr>) Rejects)
     \<lparr> access_token = JStr ''old'', expires_at = 1000100 \<rparr>
   = \<lparr> result = Inr (JStr ''fresh''),
       cache = \<lparr> access_token = JStr ''fresh'', expires_at = 4600500 \<rparr>,
       calls = [TokenPost (token_request_of env_set)] \<rparr>"
proof -
  let ?j = "\<lparr> json_access_token = JStr ''fresh'', json_expires_in = Some 3600 \<rparr>"
  let ?r = "\<lparr> resp_status = 200, resp_statusText = ''OK'', resp_body = Resolves [],
              resp_json = Resolves ?j \<rparr>"
  let ?c = "\<lparr> access_token = JStr ''old'', expires_at = 1000100 \<rparr>"
  let ?w = "scenario env_set 1000000 1000500 (answer_ok ?j) Rejects"
  have h1: "\<not> cache_hit (now_entry ?w) ?c"
    by (simp add: cache_hit_def scenario_simps)
  have h2: "\<not> missing_credentials (token_request_of (env ?w))"
    by (simp add: scenario_simps env_set_configured)
  have h3: "token_endpoint ?w (token_request_of (env ?w)) = Resolves ?r"
    by (simp add: scenario_simps answer_ok_def)
  have h4: "200 \<le> resp_status ?r \<and> resp_status ?r \<le> 299" by simp
  have h5: "resp_json ?r = Resolves ?j" by simp
  have h6: "json_expires_in ?j = Some 3600" by simp
  have h7: "(3600 :: int) \<noteq> 0" by simp
  have h8: "exact (now_store ?w)" by (simp add: scenario_simps exact_def)
  have h9: "exact (3600 * 1000)" by (simp add: exact_def)
  have h10: "exact (now_store ?w + 3600 * 1000)" by (simp add: scenario_simps exact_def)
  from refresh_success_overwrites [OF h1 h2 h3 h4 h5 h6 h7 h8 h9 h10]
  show ?thesis by (simp add: scenario_simps exact_def)
qed

subsection \<open>The default lifetime\<close>

text \<open>
  C5, as stated, fails: the expiry recorded is the time of the fetch plus 300 seconds, but
  the token is not treated as valid for 300 seconds. Line 36 reuses it only while the
  time is less than the expiry minus 60 seconds. Here the token is stored at 1000500 with
  no \<open>expires_in\<close>, and a call 240 seconds later, at 1240500, posts to the token endpoint
  again.
\<close>

theorem default_lifetime_counterexample:
  "cache (getAccessToken
      (scenario env_set 1000000 1000500
         (answer_ok \<lparr> json_access_token = JStr ''fresh'', json_expires_in = None \<rparr>) Rejects)
      tokenCache)
     = \<lparr> access_token = JStr ''fresh'', expires_at = 1000500 + 300000 \<rparr>
   \<and> (1240500 :: int) = 1000500 + 240000
   \<and> (1240500 :: int) < 1000500 + 300000
   \<and> calls (getAccessToken
      (scenario env_set 1240500 1240600
         (answer_ok \<lparr> json_access_token = JStr ''newer'', json_expires_in = None \<rparr>) Rejects)
      (cache (getAccessToken
         (scenario env_set 1000000 1000500
            (answer_ok \<lparr> json_access_token = JStr ''fresh'', json_expires_in = None \<rparr>) Rejects)
         tokenCache)))
     = [TokenPost (token_request_of env_set)]"
proof -
  have first: "getAccessToken
      (scenario env_set 1000000 1000500
         (answer_ok \<lparr> json_access_token = JStr ''fresh'', json_expires_in = None \<rparr>) Rejects)
      tokenCache
     = \<lparr> result = Inr (JStr ''fresh''),
         cache = \<lparr> access_token = JStr ''fresh'', expires_at = 1300500 \<rparr>,
         calls = [TokenPost (token_request_of env_set)] \<rparr>"
    by (simp add: token_200 expires_in_of_def)
  have second: "calls (getAccessToken
      (scenario env_set 1240500 1240600
         (answer_ok \<lparr> json_access_token = JStr ''newer'', json_expires_in = None \<rparr>) Rejects)
      \<lparr> access_token = JStr ''fresh'', expires_at = 1300500 \<rparr>)
     = [TokenPost (token_request_of env_set)]"
    by (simp add: getAccessToken_def cache_hit_def scenario_simps env_set_configured
        answer_ok_def resp_ok_def)
  show ?thesis by (simp add: first second)
qed

text \<open>
  C5, amended: when the token endpoint answers with a status in 200 to 299 and a JSON body
  without \<open>expires_in\<close>, the cache records as expiry the time read at the store (a reading
  of \<open>Date.now()\<close>, in the exact range) plus 300 seconds (300000 ms), together with the
  body's token. A later call treats the token as
  valid, that is returns it without a network call, exactly when the token is truthy and
  the time is less than the time of the store plus 240 seconds: the expiry less the margin
  of 60 seconds.
\<close>

theorem refresh_default_expiry:
  assumes "\<not> cache_hit (now_entry w) c"
    and "\<not> missing_credentials (token_request_of (env w))"
    and "token_endpoint w (token_request_of (env w)) = Resolves resp"
    and "200 \<le> resp_status resp \<and> resp_status resp \<le> 299"
    and "resp_json resp = Resolves j"
    and "json_expires_in j = None"
    and "exact (now_store w)"
    and "exact (now_store w + 300000)"
  shows "result (getAccessToken w c) = Inr (json_access_token j)
     \<and> cache (getAccessToken w c) =
         \<lparr> access_token = json_access_token j, expires_at = now_store w + 300000 \<rparr>
     \<and> (\<forall>v. truthy (json_access_token j) \<and> now_entry v < now_store w + 240000
           \<longrightarrow> getAccessToken v (cache (getAccessToken w c)) =
                 \<lparr> result = Inr (json_access_token j), cache = cache (getAccessToken w c),
                   calls = [] \<rparr>)
     \<and> (\<forall>v. \<not> truthy (json_access_token j) \<or> now_store w + 240000 \<le> now_entry v
           \<longrightarrow> \<not> cache_hit (now_entry v) (cache (getAccessToken w c)))"
proof -
  have ok: "resp_ok resp" using assms(4) by (simp add: resp_ok_def)
  have "expires_in_of j = 300" using assms(6) by (simp add: expires_in_of_def)
  with getAccessToken_stored [OF assms(1) assms(2) assms(3) ok assms(5)]
  have run: "getAccessToken w c =
     \<lparr> result = Inr (json_access_token j),
       cache = \<lparr> access_token = json_access_token j, expires_at = now_store w + 300000 \<rparr>,
       calls = [TokenPost (token_request_of (env w))] \<rparr>"
    by simp
  let ?c = "\<lparr> access_token = json_access_token j, expires_at = now_store w + 300000 \<rparr>"
  have res: "result (getAccessToken w c) = Inr (json_access_token j)"
    and stored: "cache (getAccessToken w c) = ?c"
    by (simp_all add: run)
  have hit: "cache_hit t ?c \<longleftrightarrow> truthy (json_access_token j) \<and> t < now_store w + 240000"
    for t
    by (auto simp: cache_hit_def)
  have reuse: "getAccessToken v ?c =
      \<lparr> result = Inr (json_access_token j), cache = ?c, calls = [] \<rparr>"
    if "truthy (json_access_token j) \<and> now_entry v < now_store w + 240000" for v
  proof -
    from that have "cache_hit (now_entry v) ?c" by (simp add: hit)
    from getAccessToken_hit [OF this] show ?thesis by simp
  qed
  have stale: "\<not> cache_hit (now_entry v) ?c"
    if "\<not> truthy (json_access_token j) \<or> now_store w + 240000 \<le> now_entry v" for v
    using that by (auto simp: hit)
  show ?thesis
    unfolding stored using res reuse stale by blast
qed

theorem refresh_default_expiry_witness:
  "exact 1000500 \<and> exact (1000500 + 300000)
   \<and> cache (getAccessToken
     (scenario env_set 1000000 1000500
        (answer_ok \<lparr> json_access_token = JStr ''fresh'', json_expires_in = None \<rparr>) Rejects)
     tokenCache) = \<lparr> access_token = JStr ''fresh'', expires_at = 1300500 \<rparr>
   \<and> truthy (JStr ''fresh'') \<and> (1240499 :: int) < 1000500 + 240000
   \<and> getAccessToken (scenario env_unset 1240499 1240600 Rejects Rejects)
       \<lparr> access_token = JStr ''fresh'', expires_at = 1300500 \<rparr>
     = \<lparr> result = Inr (JStr ''fresh''),
         cache = \<lparr> access_token = JStr ''fresh'', expires_at = 1300500 \<rparr>, calls = [] \<rparr>
   \<and> \<not> cache_hit 1240500 \<lparr> access_token = JStr ''fresh'', expires_at = 1300500 \<rparr>"
proof -
  let ?j = "\<lparr> json_access_token = JStr ''fresh'', json_expires_in = None \<rparr>"
  let ?r = "\<lparr> resp_status = 200, resp_statusText = ''OK'', resp_body = Resolves [],
              resp_json = Resolves ?j \<rparr>"
  let ?w = "scenario env_set 1000000 1000500 (answer_ok ?j) Rejects"
  let ?v = "scenario env_unset 1240499 1240600 Rejects Rejects"
  let ?u = "scenario env_unset 1240500 1240600 Rejects Rejects"
  have h1: "\<not> cache_hit (now_entry ?w) tokenCache" by (rule start_is_miss)
  have h2: "\<not> missing_credentials (token_request_of (env ?w))"
    by (simp add: scenario_simps env_set_configured)
  have h3: "token_endpoint ?w (token_request_of (env ?w)) = Resolves ?r"
    by (simp add: scenario_simps answer_ok_def)
  have h4: "200 \<le> resp_status ?r \<and> resp_status ?r \<le> 299" by simp
  have h5: "resp_json ?r = Resolves ?j" by simp
  have h6: "json_expires_in ?j = None" by simp
  have h7: "exact (now_store ?w)" by (simp add: scenario_simps exact_def)
  have h8: "exact (now_store ?w + 300000)" by (simp add: scenario_simps exact_def)
  note inst = refresh_default_expiry [OF h1 h2 h3 h4 h5 h6 h7 h8]
  from inst have "cache (getAccessToken ?w tokenCache)
      = \<lparr> access_token = json_access_token ?j, expires_at = now_store ?w + 300000 \<rparr>"
    by blast
  then have stored: "cache (getAccessToken ?w tokenCache)
      = \<lparr> access_token = JStr ''fresh'', expires_at = 1300500 \<rparr>"
    by (simp add: scenario_simps)
  have early: "truthy (json_access_token ?j) \<and> now_entry ?v < now_store ?w + 240000"
    by (simp add: scenario_simps)
  have late: "\<not> truthy (json_access_token ?j) \<or> now_store ?w + 240000 \<le> now_entry ?u"
    by (simp add: scenario_simps)
  from inst early have a: "getAccessToken ?v (cache (getAccessToken ?w tokenCache)) =
      \<lparr> result = Inr (json_access_token ?j), cache = cache (getAccessToken ?w tokenCache),
        calls = [] \<rparr>"
    by blast
  from inst late have b: "\<not> cache_hit (now_entry ?u) (cache (getAccessToken ?w tokenCache))"
    by blast
  from a b stored show ?thesis by (simp add: scenario_simps exact_def)
qed

subsection \<open>Missing credentials\<close>

text \<open>
  C8: on the refresh path, when one of \<open>CS_CLIENT_SECRET\<close>, \<open>CS_USERNAME\<close>, \<open>CS_PASSWORD\<close> is
  unset or empty, the call fails with the configuration error, makes no network call and
  leaves the cache as it was. When the three are set, the call does not fail with that
  error, whatever \<open>CS_TOKEN_URL\<close> and \<open>CS_CLIENT_ID\<close> are, unset included: they have defaults.
\<close>

theorem unset_credentials_fail_before_fetch:
  assumes "\<not> cache_hit (now_entry w) c"
  shows "(unset (CS_CLIENT_SECRET (env w)) \<or> unset (CS_USERNAME (env w))
            \<or> unset (CS_PASSWORD (env w))
          \<longrightarrow> getAccessToken w c = \<lparr> result = Inl MissingCredentials, cache = c, calls = [] \<rparr>)
       \<and> (\<not> unset (CS_CLIENT_SECRET (env w)) \<and> \<not> unset (CS_USERNAME (env w))
            \<and> \<not> unset (CS_PASSWORD (env w))
          \<longrightarrow> result (getAccessToken w c) \<noteq> Inl MissingCredentials)"
proof (intro conjI impI)
  assume "unset (CS_CLIENT_SECRET (env w)) \<or> unset (CS_USERNAME (env w))
            \<or> unset (CS_PASSWORD (env w))"
  then have "missing_credentials (token_request_of (env w))"
    by (auto simp: unset_def missing_credentials_def token_request_of_def or_default_def)
  from getAccessToken_unconfigured [OF assms this]
  show "getAccessToken w c = \<lparr> result = Inl MissingCredentials, cache = c, calls = [] \<rparr>" .
next
  assume "\<not> unset (CS_CLIENT_SECRET (env w)) \<and> \<not> unset (CS_USERNAME (env w))
            \<and> \<not> unset (CS_PASSWORD (env w))"
  then have conf: "\<not> missing_credentials (token_request_of (env w))"
    by (auto simp: unset_def missing_credentials_def token_request_of_def or_default_def
        split: option.splits)
  show "result (getAccessToken w c) \<noteq> Inl MissingCredentials"
    using assms conf by (simp add: getAccessToken_def Let_def split: settled.split)
qed

theorem unset_credentials_fail_before_fetch_witness:
  "getAccessToken (scenario env_unset 1000000 1000500 answer_401 Rejects) tokenCache
     = \<lparr> result = Inl MissingCredentials, cache = tokenCache, calls = [] \<rparr>
   \<and> CS_TOKEN_URL env_set = None \<and> CS_CLIENT_ID env_set = None
   \<and> result (getAccessToken (scenario env_set 1000000 1000500 answer_401 Rejects) tokenCache)
       \<noteq> Inl MissingCredentials"
proof -
  let ?u = "scenario env_unset 1000000 1000500 answer_401 Rejects"
  let ?s = "scenario env_set 1000000 1000500 answer_401 Rejects"
  have hu: "\<not> cache_hit (now_entry ?u) tokenCache" by (rule start_is_miss)
  have hs: "\<not> cache_hit (now_entry ?s) tokenCache" by (rule start_is_miss)
  have u: "unset (CS_CLIENT_SECRET (env ?u)) \<or> unset (CS_USERNAME (env ?u))
             \<or> unset (CS_PASSWORD (env ?u))"
    by (simp add: scenario_simps env_unset_def unset_def)
  have s: "\<not> unset (CS_CLIENT_SECRET (env ?s)) \<and> \<not> unset (CS_USERNAME (env ?s))
             \<and> \<not> unset (CS_PASSWORD (env ?s))"
    by (simp add: scenario_simps env_set_def unset_def)
  from unset_credentials_fail_before_fetch [OF hu] u
  have a: "getAccessToken ?u tokenCache
     = \<lparr> result = Inl MissingCredentials, cache = tokenCache, calls = [] \<rparr>" by blast
  from unset_credentials_fail_before_fetch [OF hs] s
  have b: "result (getAccessToken ?s tokenCache) \<noteq> Inl MissingCredentials" by blast
  from a b show ?thesis by (simp add: env_set_def)
qed

subsection \<open>The relay handler\<close>

lemma api_find_slot_token_error:
  "result (getAccessToken w c) = Inl e \<Longrightarrow>
   api_find_slot w q c =
     \<lparr> result = Json 500 (ProxyFailure e), cache = cache (getAccessToken w c),
       calls = calls (getAccessToken w c) \<rparr>"
  by (simp add: api_find_slot_def Let_def)

lemma api_find_slot_not_given:
  "result (getAccessToken w c) = Inr token \<Longrightarrow>
   \<not> given (fromDate q) \<or> \<not> given (locationId q) \<or> \<not> given (providerId q)
     \<or> \<not> given (productionTypeId q) \<Longrightarrow>
   api_find_slot w q c =
     \<lparr> result = Json 400 MissingParams, cache = cache (getAccessToken w c),
       calls = calls (getAccessToken w c) \<rparr>"
  by (simp add: api_find_slot_def Let_def)

lemma api_find_slot_unencodable:
  "result (getAccessToken w c) = Inr token \<Longrightarrow>
   given (fromDate q) \<and> given (locationId q) \<and> given (providerId q)
     \<and> given (productionTypeId q) \<Longrightarrow>
   slot_url_of q = Rejects \<Longrightarrow>
   api_find_slot w q c =
     \<lparr> result = Json 500 (ProxyFailure EncodeFailed), cache = cache (getAccessToken w c),
       calls = calls (getAccessToken w c) \<rparr>"
  by (simp add: api_find_slot_def Let_def)


lemma full_query_url: "slot_url_of full_query = Resolves full_url"
  by (simp add: slot_url_of_def full_query_def full_url_def)

lemma full_query_given:
  "given (fromDate full_query) \<and> given (locationId full_query)
   \<and> given (providerId full_query) \<and> given (productionTypeId full_query)"
  by (simp add: full_query_def)

text \<open>
  C2, as stated, fails: the handler calls getAccessToken at line 90, before it looks at
  the query at line 95. With \<open>providerId\<close> missing, a token endpoint that answers 401 gives
  the caller status 500, not 400; and one that answers 200 gives status 400 after the
  post to the token endpoint was made.
\<close>

theorem find_slot_validation_first_counterexample:
  "providerId (full_query \<lparr> providerId := QMissing \<rparr>) = QMissing
   \<and> api_find_slot (scenario env_set 1000000 1000500 answer_401 (slots_200 None))
        (full_query \<lparr> providerId := QMissing \<rparr>) tokenCache
      = \<lparr> result = Json 500 (ProxyFailure (TokenRequestFailed 401 ''Unauthorized'' ''denied'')),
          cache = tokenCache, calls = [TokenPost (token_request_of env_set)] \<rparr>
   \<and> api_find_slot
        (scenario env_set 1000000 1000500
           (answer_ok \<lparr> json_access_token = JStr ''fresh'', json_expires_in = Some 3600 \<rparr>)
           (slots_200 None))
        (full_query \<lparr> providerId := QMissing \<rparr>) tokenCache
      = \<lparr> result = Json 400 MissingParams,
          cache = \<lparr> access_token = JStr ''fresh'', expires_at = 4600500 \<rparr>,
          calls = [TokenPost (token_request_of env_set)] \<rparr>"
  by (simp add: api_find_slot_def token_401 token_200 full_query_def expires_in_of_def)

text \<open>
  C2, amended: for every \<open>/api/find-slot\<close> request in which one of the four parameters is
  missing or empty, the handler first runs getAccessToken, whatever the parameters are
  (the token is acquired before the parameters are tested): the cache and the network
  calls of the request are those of getAccessToken. When that succeeds the response is
  status 400 with a JSON error body; no call is made to the scheduling endpoint.
\<close>

theorem find_slot_missing_param:
  assumes "\<not> given (fromDate q) \<or> \<not> given (locationId q) \<or> \<not> given (providerId q)
           \<or> \<not> given (productionTypeId q)"
  shows "cache (api_find_slot w q c) = cache (getAccessToken w c)
       \<and> calls (api_find_slot w q c) = calls (getAccessToken w c)
       \<and> filter scheduler_call (calls (api_find_slot w q c)) = []
       \<and> (\<forall>token. result (getAccessToken w c) = Inr token
            \<longrightarrow> result (api_find_slot w q c) = Json 400 MissingParams
                \<and> status_of (result (api_find_slot w q c)) = 400
                \<and> error_payload (result (api_find_slot w q c)))"
proof (cases "result (getAccessToken w c)")
  case (Inl e)
  from api_find_slot_token_error [OF Inl] show ?thesis
    by (simp add: Inl getAccessToken_no_scheduler_call)
next
  case (Inr token)
  from api_find_slot_not_given [OF Inr assms] show ?thesis
    by (simp add: Inr getAccessToken_no_scheduler_call)
qed

theorem find_slot_missing_param_witness:
  "\<not> given (providerId (full_query \<lparr> providerId := QMissing \<rparr>))
   \<and> result (api_find_slot
        (scenario env_set 1000000 1000500
           (answer_ok \<lparr> json_access_token = JStr ''fresh'', json_expires_in = Some 3600 \<rparr>)
           (slots_200 None))
        (full_query \<lparr> providerId := QMissing \<rparr>) tokenCache) = Json 400 MissingParams
   \<and> filter scheduler_call (calls (api_find_slot
        (scenario env_set 1000000 1000500
           (answer_ok \<lparr> json_access_token = JStr ''fresh'', json_expires_in = Some 3600 \<rparr>)
           (slots_200 None))
        (full_query \<lparr> providerId := QMissing \<rparr>) tokenCache)) = []"
proof -
  let ?q = "full_query \<lparr> providerId := QMissing \<rparr>"
  let ?w = "scenario env_set 1000000 1000500
     (answer_ok \<lparr> json_access_token = JStr ''fresh'', json_expires_in = Some 3600 \<rparr>)
     (slots_200 None)"
  have q: "\<not> given (fromDate ?q) \<or> \<not> given (locationId ?q) \<or> \<not> given (providerId ?q)
           \<or> \<not> given (productionTypeId ?q)" by simp
  have t: "result (getAccessToken ?w tokenCache) = Inr (JStr ''fresh'')"
    by (simp add: token_200)
  note run = find_slot_missing_param [OF q, of ?w tokenCache]
  from run t have a: "result (api_find_slot ?w ?q tokenCache) = Json 400 MissingParams"
    by blast
  from run have b: "filter scheduler_call (calls (api_find_slot ?w ?q tokenCache)) = []"
    by blast
  from a b show ?thesis by simp
qed

text \<open>
  C7: for every \<open>/api/find-slot\<close> request, with the four parameters present or not, when
  getAccessToken fails the response is status 500 with the JSON error payload that
  carries the failure, and no call is made to the scheduling endpoint.
\<close>

theorem find_slot_token_failure:
  assumes "result (getAccessToken w c) = Inl e"
  shows "result (api_find_slot w q c) = Json 500 (ProxyFailure e)
       \<and> status_of (result (api_find_slot w q c)) = 500
       \<and> error_payload (result (api_find_slot w q c))
       \<and> calls (api_find_slot w q c) = calls (getAccessToken w c)
       \<and> filter scheduler_call (calls (api_find_slot w q c)) = []"
  using api_find_slot_token_error [OF assms, of q]
  by (simp add: getAccessToken_no_scheduler_call)

theorem find_slot_token_failure_witness:
  "given (fromDate full_query) \<and> given (locationId full_query)
   \<and> given (providerId full_query) \<and> given (productionTypeId full_query)
   \<and> result (api_find_slot (scenario env_set 1000000 1000500 answer_401 (slots_200 None))
        full_query tokenCache)
      = Json 500 (ProxyFailure (TokenRequestFailed 401 ''Unauthorized'' ''denied''))
   \<and> calls (api_find_slot (scenario env_set 1000000 1000500 answer_401 (slots_200 None))
        full_query tokenCache)
      = [TokenPost (token_request_of env_set)]"
proof -
  let ?w = "scenario env_set 1000000 1000500 answer_401 (slots_200 None)"
  have t: "result (getAccessToken ?w tokenCache)
             = Inl (TokenRequestFailed 401 ''Unauthorized'' ''denied'')"
    by (simp add: token_401)
  from find_slot_token_failure [OF t, of full_query]
  show ?thesis by (simp add: token_401 full_query_def)
qed




subsection \<open>The life of the token cache\<close>

lemma getAccessToken_cache:
  "cache (getAccessToken w c) = c
   \<or> (\<exists>resp j. token_endpoint w (token_request_of (env w)) = Resolves resp \<and> resp_ok resp
         \<and> resp_json resp = Resolves j
         \<and> TokenPost (token_request_of (env w)) \<in> set (calls (getAccessToken w c))
         \<and> cache (getAccessToken w c) =
             \<lparr> access_token = json_access_token j,
               expires_at = now_store w + expires_in_of j * 1000 \<rparr>)"
proof (cases "cache_hit (now_entry w) c \<or> missing_credentials (token_request_of (env w))")
  case True
  then show ?thesis by (auto simp: getAccessToken_def)
next
  case False
  then have miss: "\<not> cache_hit (now_entry w) c"
    and conf: "\<not> missing_credentials (token_request_of (env w))" by simp_all
  show ?thesis
  proof (cases "token_endpoint w (token_request_of (env w))")
    case Rejects
    from getAccessToken_rejected [OF miss conf Rejects] show ?thesis by simp
  next
    case (Resolves resp)
    show ?thesis
    proof (cases "resp_ok resp")
      case False
      from getAccessToken_not_ok [OF miss conf Resolves False] show ?thesis by simp
    next
      case True
      show ?thesis
      proof (cases "resp_json resp")
        case Rejects
        from getAccessToken_unparsed [OF miss conf Resolves True Rejects] show ?thesis by simp
      next
        case (Resolves j)
        from getAccessToken_stored [OF miss conf \<open>token_endpoint w _ = Resolves resp\<close> True Resolves]
        show ?thesis using \<open>token_endpoint w _ = Resolves resp\<close> True Resolves by simp
      qed
    qed
  qed
qed

lemma handle_cache:
  "cache (handle w r c) = c
   \<or> (cache (handle w r c) = cache (getAccessToken w c)
      \<and> set (calls (getAccessToken w c)) \<subseteq> set (calls (handle w r c)))"
  by (cases r)
    (auto simp: health_def api_token_def api_find_slot_def Let_def split: sum.split settled.split)

text \<open>With no usable token in the cache, the stored expiry is not consulted.\<close>

lemma falsy_is_miss: "\<not> truthy (access_token c) \<Longrightarrow> \<not> cache_hit t (c\<lparr> expires_at := e \<rparr>)"
  by (simp add: cache_hit_def)

lemma getAccessToken_ignores_expiry:
  assumes "\<not> truthy (access_token c)"
  shows "result (getAccessToken w (c\<lparr> expires_at := e \<rparr>)) = result (getAccessToken w c)
       \<and> calls (getAccessToken w (c\<lparr> expires_at := e \<rparr>)) = calls (getAccessToken w c)
       \<and> (cache (getAccessToken w (c\<lparr> expires_at := e \<rparr>)) = cache (getAccessToken w c)
          \<or> (cache (getAccessToken w (c\<lparr> expires_at := e \<rparr>)) = c\<lparr> expires_at := e \<rparr>
             \<and> cache (getAccessToken w c) = c))"
proof -
  have a: "\<not> cache_hit (now_entry w) (c\<lparr> expires_at := e \<rparr>)"
    using assms by (rule falsy_is_miss)
  have b: "\<not> cache_hit (now_entry w) c"
    using assms by (simp add: cache_hit_def)
  show ?thesis
    by (simp add: getAccessToken_def a b Let_def split: settled.split)
qed

lemma handle_ignores_expiry:
  assumes "\<not> truthy (access_token c)"
  shows "result (handle w r (c\<lparr> expires_at := e \<rparr>)) = result (handle w r c)
       \<and> calls (handle w r (c\<lparr> expires_at := e \<rparr>)) = calls (handle w r c)
       \<and> (cache (handle w r (c\<lparr> expires_at := e \<rparr>)) = cache (handle w r c)
          \<or> (cache (handle w r (c\<lparr> expires_at := e \<rparr>)) = c\<lparr> expires_at := e \<rparr>
             \<and> cache (handle w r c) = c))"
proof -
  have a: "\<not> cache_hit (now_entry w) (c\<lparr> expires_at := e \<rparr>)"
    using assms by (rule falsy_is_miss)
  have b: "\<not> cache_hit (now_entry w) c"
    using assms by (simp add: cache_hit_def)
  show ?thesis
  proof (cases r)
    case GetHealth
    then show ?thesis by (simp add: health_def)
  next
    case GetToken
    then show ?thesis
      by (simp add: api_token_def getAccessToken_def a b Let_def split: settled.split)
  next
    case (GetFindSlot q)
    then show ?thesis
      by (simp add: api_find_slot_def getAccessToken_def a b Let_def split: settled.split)
  qed
qed

text \<open>
  C9: the cache starts as no token and expiry 0. Every operation (getAccessToken and the
  three routes) either leaves the cache as it was or ends with the cache that a successful
  fetch wrote, both fields from the same answer: the token of a 2xx JSON body and the
  time read at the store plus its lifetime. And \<open>expires_at\<close> has a meaning only when a
  token is present: while the cached token is absent, changing \<open>expires_at\<close> changes
  neither the result nor the network calls of any operation, and changes the cache it
  leaves only where the operation did not write it.
\<close>

theorem token_state_lifecycle:
  "tokenCache = \<lparr> access_token = JNull, expires_at = 0 \<rparr>
   \<and> (cache (getAccessToken w c) = c
      \<or> (\<exists>resp j. token_endpoint w (token_request_of (env w)) = Resolves resp \<and> resp_ok resp
            \<and> resp_json resp = Resolves j
            \<and> TokenPost (token_request_of (env w)) \<in> set (calls (getAccessToken w c))
            \<and> cache (getAccessToken w c) =
                \<lparr> access_token = json_access_token j,
                  expires_at = now_store w + expires_in_of j * 1000 \<rparr>))
   \<and> (cache (handle w r c) = c
      \<or> (\<exists>resp j. token_endpoint w (token_request_of (env w)) = Resolves resp \<and> resp_ok resp
            \<and> resp_json resp = Resolves j
            \<and> TokenPost (token_request_of (env w)) \<in> set (calls (handle w r c))
            \<and> cache (handle w r c) =
                \<lparr> access_token = json_access_token j,
                  expires_at = now_store w + expires_in_of j * 1000 \<rparr>))
   \<and> (\<not> truthy (access_token c) \<longrightarrow>
        (\<forall>e. result (handle w r (c\<lparr> expires_at := e \<rparr>)) = result (handle w r c)
           \<and> calls (handle w r (c\<lparr> expires_at := e \<rparr>)) = calls (handle w r c)
           \<and> result (getAccessToken w (c\<lparr> expires_at := e \<rparr>)) = result (getAccessToken w c)
           \<and> calls (getAccessToken w (c\<lparr> expires_at := e \<rparr>)) = calls (getAccessToken w c)
           \<and> (cache (handle w r (c\<lparr> expires_at := e \<rparr>)) = cache (handle w r c)
              \<or> (cache (handle w r (c\<lparr> expires_at := e \<rparr>)) = c\<lparr> expires_at := e \<rparr>
                 \<and> cache (handle w r c) = c))))"
proof (intro conjI impI allI)
  show "tokenCache = \<lparr> access_token = JNull, expires_at = 0 \<rparr>"
    by (simp add: tokenCache_def)
next
  show "cache (getAccessToken w c) = c
      \<or> (\<exists>resp j. token_endpoint w (token_request_of (env w)) = Resolves resp \<and> resp_ok resp
            \<and> resp_json resp = Resolves j
            \<and> TokenPost (token_request_of (env w)) \<in> set (calls (getAccessToken w c))
            \<and> cache (getAccessToken w c) =
                \<lparr> access_token = json_access_token j,
                  expires_at = now_store w + expires_in_of j * 1000 \<rparr>)"
    by (rule getAccessToken_cache)
next
  show "cache (handle w r c) = c
      \<or> (\<exists>resp j. token_endpoint w (token_request_of (env w)) = Resolves resp \<and> resp_ok resp
            \<and> resp_json resp = Resolves j
            \<and> TokenPost (token_request_of (env w)) \<in> set (calls (handle w r c))
            \<and> cache (handle w r c) =
                \<lparr> access_token = json_access_token j,
                  expires_at = now_store w + expires_in_of j * 1000 \<rparr>)"
    using handle_cache [of w r c] getAccessToken_cache [of w c] by auto
next
  fix e
  assume f: "\<not> truthy (access_token c)"
  from handle_ignores_expiry [OF f, of w r e]
  show "result (handle w r (c\<lparr> expires_at := e \<rparr>)) = result (handle w r c)"
    and "calls (handle w r (c\<lparr> expires_at := e \<rparr>)) = calls (handle w r c)"
    and "cache (handle w r (c\<lparr> expires_at := e \<rparr>)) = cache (handle w r c)
          \<or> (cache (handle w r (c\<lparr> expires_at := e \<rparr>)) = c\<lparr> expires_at := e \<rparr>
             \<and> cache (handle w r c) = c)"
    by simp_all
  from getAccessToken_ignores_expiry [OF f, of w e]
  show "result (getAccessToken w (c\<lparr> expires_at := e \<rparr>)) = result (getAccessToken w c)"
    and "calls (getAccessToken w (c\<lparr> expires_at := e \<rparr>)) = calls (getAccessToken w c)"
    by simp_all
qed

theorem token_state_lifecycle_witness:
  "\<not> truthy (access_token tokenCache)
   \<and> result (handle (scenario env_set 1000000 1000500 answer_401 Rejects) GetToken
        (tokenCache \<lparr> expires_at := 9999999 \<rparr>))
      = result (handle (scenario env_set 1000000 1000500 answer_401 Rejects) GetToken tokenCache)
   \<and> calls (handle (scenario env_set 1000000 1000500 answer_401 Rejects) GetToken
        (tokenCache \<lparr> expires_at := 9999999 \<rparr>))
      = [TokenPost (token_request_of env_set)]
   \<and> cache (handle (scenario env_set 1000000 1000500 answer_401 Rejects) GetToken tokenCache)
      = tokenCache"
proof -
  let ?w = "scenario env_set 1000000 1000500 answer_401 Rejects"
  have f: "\<not> truthy (access_token tokenCache)" by (simp add: tokenCache_def)
  have k: "calls (handle ?w GetToken tokenCache) = [TokenPost (token_request_of env_set)]"
    and c: "cache (handle ?w GetToken tokenCache) = tokenCache"
    by (simp_all add: api_token_def token_401)
  from token_state_lifecycle [of ?w tokenCache GetToken] f
  have "result (handle ?w GetToken (tokenCache \<lparr> expires_at := 9999999 \<rparr>))
          = result (handle ?w GetToken tokenCache)
      \<and> calls (handle ?w GetToken (tokenCache \<lparr> expires_at := 9999999 \<rparr>))
          = calls (handle ?w GetToken tokenCache)"
    by blast
  with f k c show ?thesis by simp
qed

subsection \<open>A token response without a token\<close>

text \<open>
  C10, as stated, fails: the expiry that is set is not always a future time. With a body
  that has no \<open>access_token\<close> and an \<open>expires_in\<close> of -10, the store at 1000500 sets
  \<open>expires_at\<close> to 990500, which is before the time of the store.
\<close>

theorem absent_token_past_expiry_counterexample:
  "getAccessToken
     (scenario env_set 1000000 1000500
        (answer_ok \<lparr> json_access_token = JUndefined, json_expires_in = Some (- 10) \<rparr>) Rejects)
     tokenCache
   = \<lparr> result = Inr JUndefined,
       cache = \<lparr> access_token = JUndefined, expires_at = 990500 \<rparr>,
       calls = [TokenPost (token_request_of env_set)] \<rparr>
   \<and> (990500 :: int) < 1000500"
  by (simp add: token_200 expires_in_of_def)

text \<open>
  C10, amended: when the token endpoint answers with a status in 200 to 299 and a JSON
  body that has no \<open>access_token\<close> field, getAccessToken does not fail. It stores the
  undefined value as the cached token and returns it; it sets \<open>expires_at\<close> to the time
  read at the store plus \<open>expires_in\<close> seconds, or plus 300 seconds when \<open>expires_in\<close> is
  absent or 0, for a whole number \<open>expires_in\<close> in the range where the arithmetic of the
  code is exact; that time is a future time when \<open>expires_in\<close> is not negative.
  \<open>/api/find-slot\<close>, with its four parameters given and convertible to strings, then calls
  the scheduling endpoint with a bearer that is the undefined value. The next
  getAccessToken call, at any time, takes the refresh path again.
\<close>

theorem absent_token_is_stored:
  assumes "\<not> cache_hit (now_entry w) c"
    and "\<not> missing_credentials (token_request_of (env w))"
    and "token_endpoint w (token_request_of (env w)) = Resolves resp"
    and "200 \<le> resp_status resp \<and> resp_status resp \<le> 299"
    and "resp_json resp = Resolves j"
    and "json_access_token j = JUndefined"
    and "exact (now_store w)"
    and "exact (expires_in_of j * 1000)"
    and "exact (now_store w + expires_in_of j * 1000)"
  shows "result (getAccessToken w c) = Inr JUndefined
       \<and> access_token (cache (getAccessToken w c)) = JUndefined
       \<and> (json_expires_in j = None \<or> json_expires_in j = Some 0
            \<longrightarrow> expires_at (cache (getAccessToken w c)) = now_store w + 300000)
       \<and> (\<forall>n. json_expires_in j = Some n \<and> n \<noteq> 0
            \<longrightarrow> expires_at (cache (getAccessToken w c)) = now_store w + n * 1000)
       \<and> (json_expires_in j = None \<or> (\<exists>n. json_expires_in j = Some n \<and> 0 \<le> n)
            \<longrightarrow> now_store w < expires_at (cache (getAccessToken w c)))
       \<and> (\<forall>u. given (fromDate q) \<and> given (locationId q) \<and> given (providerId q)
            \<and> given (productionTypeId q) \<and> slot_url_of q = Resolves u
            \<longrightarrow> calls (api_find_slot w q c) =
                  [TokenPost (token_request_of (env w)),
                   SchedulerGet \<lparr> target = u, bearer = JUndefined \<rparr>])
       \<and> (\<forall>v. \<not> cache_hit (now_entry v) (cache (getAccessToken w c)))
       \<and> (\<forall>v. \<not> missing_credentials (token_request_of (env v))
            \<longrightarrow> calls (getAccessToken v (cache (getAccessToken w c)))
                  = [TokenPost (token_request_of (env v))])"
proof -
  have ok: "resp_ok resp" using assms(4) by (simp add: resp_ok_def)
  note run = getAccessToken_stored [OF assms(1) assms(2) assms(3) ok assms(5)]
  have res: "result (getAccessToken w c) = Inr JUndefined"
    and tok: "access_token (cache (getAccessToken w c)) = JUndefined"
    and exp: "expires_at (cache (getAccessToken w c)) = now_store w + expires_in_of j * 1000"
    and cls: "calls (getAccessToken w c) = [TokenPost (token_request_of (env w))]"
    using run assms(6) by simp_all
  have miss: "\<not> cache_hit t (cache (getAccessToken w c))" for t
    using tok by (simp add: cache_hit_def)
  have again: "calls (getAccessToken v (cache (getAccessToken w c)))
                 = [TokenPost (token_request_of (env v))]"
    if "\<not> missing_credentials (token_request_of (env v))" for v
    using that miss [of "now_entry v"]
    by (simp add: getAccessToken_def Let_def split: settled.split)
  have slot: "calls (api_find_slot w q c) =
                [TokenPost (token_request_of (env w)),
                 SchedulerGet \<lparr> target = u, bearer = JUndefined \<rparr>]"
    if "given (fromDate q) \<and> given (locationId q) \<and> given (providerId q)
        \<and> given (productionTypeId q) \<and> slot_url_of q = Resolves u" for u
    using that res cls by (simp add: api_find_slot_def Let_def split: settled.split)
  have default: "expires_at (cache (getAccessToken w c)) = now_store w + 300000"
    if "json_expires_in j = None \<or> json_expires_in j = Some 0"
    using that by (auto simp: exp expires_in_of_def)
  have given_n: "expires_at (cache (getAccessToken w c)) = now_store w + n * 1000"
    if "json_expires_in j = Some n \<and> n \<noteq> 0" for n
    using that by (simp add: exp expires_in_of_def)
  have ahead: "now_store w < expires_at (cache (getAccessToken w c))"
    if "json_expires_in j = None \<or> (\<exists>n. json_expires_in j = Some n \<and> 0 \<le> n)"
    using that by (auto simp: exp expires_in_of_def)
  show ?thesis
    using res tok miss again slot default given_n ahead by blast
qed

theorem absent_token_is_stored_witness:
  "exact 1000500 \<and> exact (300 * 1000) \<and> exact (1000500 + 300 * 1000)
   \<and> getAccessToken
     (scenario env_set 1000000 1000500
        (answer_ok \<lparr> json_access_token = JUndefined, json_expires_in = None \<rparr>) (slots_200 None))
     tokenCache
   = \<lparr> result = Inr JUndefined,
       cache = \<lparr> access_token = JUndefined, expires_at = 1300500 \<rparr>,
       calls = [TokenPost (token_request_of env_set)] \<rparr>
   \<and> (1000500 :: int) < 1300500
   \<and> calls (api_find_slot
     (scenario env_set 1000000 1000500
        (answer_ok \<lparr> json_access_token = JUndefined, json_expires_in = None \<rparr>) (slots_200 None))
     full_query tokenCache)
   = [TokenPost (token_request_of env_set),
      SchedulerGet \<lparr> target = full_url, bearer = JUndefined \<rparr>]
   \<and> calls (getAccessToken (scenario env_set 1000600 1000700 answer_401 Rejects)
       \<lparr> access_token = JUndefined, expires_at = 1300500 \<rparr>)
   = [TokenPost (token_request_of env_set)]"
proof -
  let ?j = "\<lparr> json_access_token = JUndefined, json_expires_in = None \<rparr>"
  let ?r = "\<lparr> resp_status = 200, resp_statusText = ''OK'', resp_body = Resolves [],
              resp_json = Resolves ?j \<rparr>"
  let ?w = "scenario env_set 1000000 1000500 (answer_ok ?j) (slots_200 None)"
  let ?v = "scenario env_set 1000600 1000700 answer_401 Rejects"
  have h1: "\<not> cache_hit (now_entry ?w) tokenCache" by (rule start_is_miss)
  have h2: "\<not> missing_credentials (token_request_of (env ?w))"
    by (simp add: scenario_simps env_set_configured)
  have h3: "token_endpoint ?w (token_request_of (env ?w)) = Resolves ?r"
    by (simp add: scenario_simps answer_ok_def)
  have h4: "200 \<le> resp_status ?r \<and> resp_status ?r \<le> 299" by simp
  have h5: "resp_json ?r = Resolves ?j" by simp
  have h6: "json_access_token ?j = JUndefined" by simp
  have h7: "exact (now_store ?w)" by (simp add: scenario_simps exact_def)
  have h8: "exact (expires_in_of ?j * 1000)" by (simp add: expires_in_of_def exact_def)
  have h9: "exact (now_store ?w + expires_in_of ?j * 1000)"
    by (simp add: scenario_simps expires_in_of_def exact_def)
  have q: "given (fromDate full_query) \<and> given (locationId full_query)
     \<and> given (providerId full_query) \<and> given (productionTypeId full_query)
     \<and> slot_url_of full_query = Resolves full_url"
    by (simp add: full_query_given full_query_url)
  have v: "\<not> missing_credentials (token_request_of (env ?v))"
    by (simp add: scenario_simps env_set_configured)
  have n: "json_expires_in ?j = None \<or> (\<exists>n. json_expires_in ?j = Some n \<and> 0 \<le> n)"
    by simp
  have run: "getAccessToken ?w tokenCache
     = \<lparr> result = Inr JUndefined,
         cache = \<lparr> access_token = JUndefined, expires_at = 1300500 \<rparr>,
         calls = [TokenPost (token_request_of env_set)] \<rparr>"
    by (simp add: token_200 expires_in_of_def)
  note inst = absent_token_is_stored [OF h1 h2 h3 h4 h5 h6 h7 h8 h9, of full_query]
  from inst q have a: "calls (api_find_slot ?w full_query tokenCache) =
      [TokenPost (token_request_of (env ?w)),
       SchedulerGet \<lparr> target = full_url, bearer = JUndefined \<rparr>]" by blast
  from inst v have b: "calls (getAccessToken ?v (cache (getAccessToken ?w tokenCache)))
      = [TokenPost (token_request_of (env ?v))]" by blast
  from inst n have f: "now_store ?w < expires_at (cache (getAccessToken ?w tokenCache))"
    by blast
  from a b f run show ?thesis by (simp add: scenario_simps exact_def)
qed

end
